theory Spec2Isabelle
  imports Complex_Main "HOL-Library.AList" "HOL-Library.Product_Lexorder"
begin

section \<open>Time\<close>

text \<open>
  A naive \<^verbatim>\<open>datetime\<close> is the number of microseconds since \<^verbatim>\<open>datetime.min\<close>
  (0001-01-01 00:00:00, a Monday).  Subtracting two of them gives a \<^verbatim>\<open>timedelta\<close>, again a
  number of microseconds, possibly negative.  Every function of the source that reads
  \<^verbatim>\<open>datetime.now()\<close> takes the reading as its argument \<open>now\<close>; one call of a method reads
  the clock once.
\<close>

type_synonym datetime = int
type_synonym timedelta = int

datatype py_error = IndexError | OverflowError

definition datetime_min :: datetime where
  "datetime_min = 0"

text \<open>\<^verbatim>\<open>datetime.max\<close>, 9999-12-31 23:59:59.999999.\<close>

definition datetime_max :: datetime where
  "datetime_max = 315537897599999999"

definition total_seconds :: "timedelta \<Rightarrow> real" where
  "total_seconds d = real_of_int d / 1000000"

definition usec_per_day :: int where
  "usec_per_day = 86400000000"

text \<open>\<^verbatim>\<open>timedelta.days\<close>: the normalised day count, rounded towards minus infinity.\<close>

definition td_days :: "timedelta \<Rightarrow> int" where
  "td_days d = d div usec_per_day"

definition timedelta_days :: "int \<Rightarrow> timedelta" where
  "timedelta_days n = n * usec_per_day"

text \<open>
  \<^verbatim>\<open>now - timedelta(days=n)\<close>: the constructor raises \<^verbatim>\<open>OverflowError\<close> for more than
  999999999 days in either direction, the subtraction raises it when the result is not a
  \<^verbatim>\<open>datetime\<close>.
\<close>

definition minus_days :: "datetime \<Rightarrow> int \<Rightarrow> py_error + datetime" where
  "minus_days now n =
     (if \<bar>n\<bar> > 999999999 then Inl OverflowError
      else
        let t = now - timedelta_days n in
        if t < datetime_min \<or> datetime_max < t then Inl OverflowError else Inr t)"

definition dt_hour :: "datetime \<Rightarrow> int" where
  "dt_hour t = (t div 3600000000) mod 24"

definition dt_weekday :: "datetime \<Rightarrow> int" where
  "dt_weekday t = (t div usec_per_day) mod 7"

text \<open>
  A \<^verbatim>\<open>time\<close> of day is (hour, minute, second, microsecond); Python compares two of them
  lexicographically, which is the order of the product type.
\<close>

type_synonym time_of_day = "nat \<times> nat \<times> nat \<times> nat"

definition dt_time :: "datetime \<Rightarrow> time_of_day" where
  "dt_time t =
     (nat ((t div 3600000000) mod 24), nat ((t div 60000000) mod 60),
      nat ((t div 1000000) mod 60), nat (t mod 1000000))"

section \<open>Alert deduplication (alert_deduplication.py)\<close>

text \<open>One detection of the object detector: a dict with the keys class, confidence, bbox.\<close>

record detection =
  obj_class :: string
  obj_confidence :: real
  obj_bbox :: "real list"

record DetectionState =
  person_name :: string
  objects :: "string set"
  last_seen :: datetime
  alert_count :: int

text \<open>
  The dict \<^verbatim>\<open>active_detections\<close> (camera to state) is an association list in insertion
  order: assigning to a present key overwrites in place, assigning to an absent key appends,
  which is \<^const>\<open>AList.update\<close>.
\<close>

record AlertDeduplicator =
  cooldown :: int
  active_detections :: "(string \<times> DetectionState) list"
  last_alert_time :: "(string \<times> datetime) list"

definition new_deduplicator :: "int \<Rightarrow> AlertDeduplicator" where
  "new_deduplicator cooldown_seconds =
     \<lparr>cooldown = cooldown_seconds, active_detections = [], last_alert_time = []\<rparr>"

definition current_objects :: "detection list \<Rightarrow> string set" where
  "current_objects objs = set (map obj_class (filter (\<lambda>obj. obj_class obj \<noteq> ''person'') objs))"

definition should_alert ::
  "AlertDeduplicator \<Rightarrow> datetime \<Rightarrow> string \<Rightarrow> string \<Rightarrow> detection list
     \<Rightarrow> bool \<times> AlertDeduplicator" where
  "should_alert d now camera person objs =
     (let cur = current_objects objs in
      case map_of (active_detections d) camera of
        Some state \<Rightarrow>
          if person_name state = person then
            (if cur - objects state \<noteq> {} then
               (True, d\<lparr>active_detections :=
                  AList.update camera (state\<lparr>objects := cur, last_seen := now\<rparr>)
                    (active_detections d)\<rparr>)
             else if total_seconds (now - last_seen state) > real_of_int (cooldown d) then
               (True, d\<lparr>active_detections :=
                  AList.update camera (state\<lparr>last_seen := now\<rparr>) (active_detections d)\<rparr>)
             else
               (False, d\<lparr>active_detections :=
                  AList.update camera (state\<lparr>last_seen := now\<rparr>) (active_detections d)\<rparr>))
          else
            (True, d\<lparr>active_detections :=
               AList.update camera
                 (state\<lparr>person_name := person, objects := cur, last_seen := now,
                    alert_count := alert_count state + 1\<rparr>)
                 (active_detections d)\<rparr>)
      | None \<Rightarrow>
          (True, d\<lparr>active_detections :=
             AList.update camera
               \<lparr>person_name = person, objects = cur, last_seen = now, alert_count = 1\<rparr>
               (active_detections d)\<rparr>))"

definition mark_left :: "AlertDeduplicator \<Rightarrow> string \<Rightarrow> AlertDeduplicator" where
  "mark_left d camera =
     (if camera \<in> fst ` set (active_detections d)
      then d\<lparr>active_detections := AList.delete camera (active_detections d)\<rparr>
      else d)"

definition cleanup_old :: "AlertDeduplicator \<Rightarrow> datetime \<Rightarrow> int \<Rightarrow> AlertDeduplicator" where
  "cleanup_old d now max_age_seconds =
     (let to_remove =
        map fst (filter (\<lambda>(camera, state).
          total_seconds (now - last_seen state) > real_of_int max_age_seconds)
          (active_detections d))
      in d\<lparr>active_detections := fold AList.delete to_remove (active_detections d)\<rparr>)"

text \<open>The answers of \<open>should_alert\<close> to a stream of observations of one subject at one camera.\<close>

fun observe_all ::
  "AlertDeduplicator \<Rightarrow> string \<Rightarrow> string \<Rightarrow> (datetime \<times> detection list) list \<Rightarrow> bool list" where
  "observe_all d camera person [] = []"
| "observe_all d camera person ((now, objs) # rest) =
     (case should_alert d now camera person objs of
        (r, d') \<Rightarrow> r # observe_all d' camera person rest)"

text \<open>Each observation is at most the cooldown after the one before it.\<close>

fun within_cooldown :: "int \<Rightarrow> datetime \<Rightarrow> (datetime \<times> detection list) list \<Rightarrow> bool" where
  "within_cooldown cd prev [] = True"
| "within_cooldown cd prev ((now, objs) # rest) =
     (total_seconds (now - prev) \<le> real_of_int cd \<and> within_cooldown cd now rest)"

section \<open>Smart alerts (smart_alerts.py)\<close>

text \<open>
  The configuration is the part of the YAML file the manager reads: the section
  \<^verbatim>\<open>quiet_hours\<close> (a missing section or flag means not enabled; start and end are the
  parsed \<^verbatim>\<open>HH:MM\<close> strings) and \<^verbatim>\<open>smart_filtering.min_time_between_alerts\<close> (300 when
  absent).
\<close>

record config =
  quiet_enabled :: bool
  quiet_start :: "nat \<times> nat"
  quiet_end :: "nat \<times> nat"
  min_time_between_alerts :: real

text \<open>
  An alert text is a rendering of its kind, the camera, the person and the \<^verbatim>\<open>HH:MM\<close> of the
  clock (with an emoji in front); the model keeps these components instead of the text.
\<close>

datatype alert =
  NewPersonAlert string string datetime
| PersonLeftAlert string string datetime
| UnknownPersonAlert string datetime

record daily_image =
  img_path :: string
  img_camera :: string
  img_person :: string
  img_description :: string
  img_time :: datetime

text \<open>
  \<open>sent\<close> is the sequence of texts handed to \<^verbatim>\<open>_send_text_alert\<close>, whose failures are
  logged and swallowed.
\<close>

record SmartAlertManager =
  config :: config
  last_alerts :: "(string \<times> datetime) list"
  active_persons :: "(string \<times> datetime) list"
  daily_images :: "daily_image list"
  sent :: "alert list"

definition new_manager :: "config \<Rightarrow> SmartAlertManager" where
  "new_manager cfg =
     \<lparr>config = cfg, last_alerts = [], active_persons = [], daily_images = [], sent = []\<rparr>"

definition person_key :: "string \<Rightarrow> string \<Rightarrow> string" where
  "person_key camera person = camera @ '':'' @ person"

definition parse_hm :: "nat \<times> nat \<Rightarrow> time_of_day" where
  "parse_hm hm = (fst hm, snd hm, 0, 0)"

definition is_quiet_hours :: "SmartAlertManager \<Rightarrow> datetime \<Rightarrow> bool" where
  "is_quiet_hours m now =
     (if \<not> quiet_enabled (config m) then False
      else
        let start = parse_hm (quiet_start (config m));
            end_t = parse_hm (quiet_end (config m));
            current_time = dt_time now
        in if start < end_t then start \<le> current_time \<and> current_time \<le> end_t
           else current_time \<ge> start \<or> current_time \<le> end_t)"

text \<open>\<^verbatim>\<open>str.lower\<close> and the substring test \<^verbatim>\<open>in\<close>, on ASCII text.\<close>

definition lower_char :: "char \<Rightarrow> char" where
  "lower_char c =
     (case map_of (zip ''ABCDEFGHIJKLMNOPQRSTUVWXYZ'' ''abcdefghijklmnopqrstuvwxyz'') c of
        Some l \<Rightarrow> l
      | None \<Rightarrow> c)"

fun is_prefix :: "string \<Rightarrow> string \<Rightarrow> bool" where
  "is_prefix [] ys = True"
| "is_prefix (x # xs) [] = False"
| "is_prefix (x # xs) (y # ys) = (x = y \<and> is_prefix xs ys)"

fun is_substring :: "string \<Rightarrow> string \<Rightarrow> bool" where
  "is_substring xs [] = (xs = [])"
| "is_substring xs (y # ys) = (is_prefix xs (y # ys) \<or> is_substring xs ys)"

definition emergencies :: "string list" where
  "emergencies = [''unknown'', ''intrusion'', ''break'', ''glass'', ''anomaly'']"

definition is_emergency :: "string \<Rightarrow> string \<Rightarrow> bool" where
  "is_emergency person description =
     (let desc_lower = map lower_char description
      in list_ex (\<lambda>e. is_substring e desc_lower) emergencies)"

definition is_new_person :: "SmartAlertManager \<Rightarrow> datetime \<Rightarrow> string \<Rightarrow> string \<Rightarrow> bool" where
  "is_new_person m now camera person =
     (let key = person_key camera person in
      if map_of (active_persons m) key = None then
        (case map_of (last_alerts m) key of
           Some seen \<Rightarrow>
             if total_seconds (now - seen) < min_time_between_alerts (config m)
             then False else True
         | None \<Rightarrow> True)
      else False)"

definition has_person_left :: "SmartAlertManager \<Rightarrow> datetime \<Rightarrow> string \<Rightarrow> string \<Rightarrow> bool" where
  "has_person_left m now camera person =
     (case map_of (active_persons m) (person_key camera person) of
        Some seen \<Rightarrow> total_seconds (now - seen) > 120
      | None \<Rightarrow> False)"

definition track_person ::
  "SmartAlertManager \<Rightarrow> datetime \<Rightarrow> string \<Rightarrow> string \<Rightarrow> SmartAlertManager" where
  "track_person m now camera person =
     (let key = person_key camera person in
      m\<lparr>active_persons := AList.update key now (active_persons m),
        last_alerts := AList.update key now (last_alerts m)\<rparr>)"

definition remove_person :: "SmartAlertManager \<Rightarrow> string \<Rightarrow> string \<Rightarrow> SmartAlertManager" where
  "remove_person m camera person =
     (let key = person_key camera person in
      if key \<in> fst ` set (active_persons m)
      then m\<lparr>active_persons := AList.delete key (active_persons m)\<rparr>
      else m)"

definition should_alert_unknown :: "SmartAlertManager \<Rightarrow> datetime \<Rightarrow> bool" where
  "should_alert_unknown m now =
     (let last_unknown =
        (case map_of (last_alerts m) ''unknown'' of Some t \<Rightarrow> t | None \<Rightarrow> datetime_min)
      in total_seconds (now - last_unknown) > 300)"

definition send_text_alert :: "SmartAlertManager \<Rightarrow> alert \<Rightarrow> SmartAlertManager" where
  "send_text_alert m msg = m\<lparr>sent := sent m @ [msg]\<rparr>"

definition is_interesting_for_training ::
  "SmartAlertManager \<Rightarrow> string \<Rightarrow> string \<Rightarrow> detection list \<Rightarrow> bool" where
  "is_interesting_for_training m camera person objs =
     (if length (daily_images m) \<ge> 20 then False else True)"

definition process_detection ::
  "SmartAlertManager \<Rightarrow> datetime \<Rightarrow> string \<Rightarrow> string \<Rightarrow> detection list \<Rightarrow> string \<Rightarrow> real
     \<Rightarrow> string \<Rightarrow> alert option \<times> SmartAlertManager" where
  "process_detection m now camera person objs description confidence image_path =
     (if is_quiet_hours m now \<and> \<not> is_emergency person description then (None, m)
      else if is_new_person m now camera person then
        (let msg = NewPersonAlert camera person now
         in (Some msg, send_text_alert (track_person m now camera person) msg))
      else if has_person_left m now camera person then
        (let msg = PersonLeftAlert camera person now
         in (Some msg, send_text_alert (remove_person m camera person) msg))
      else if (person = ''unknown'' \<or> person = ''desconhecido'') \<and> should_alert_unknown m now then
        (let msg = UnknownPersonAlert camera now
         in (Some msg, send_text_alert m msg))
      else if is_interesting_for_training m camera person objs then
        (None, m\<lparr>daily_images := daily_images m @
           [\<lparr>img_path = image_path, img_camera = camera, img_person = person,
             img_description = description, img_time = now\<rparr>]\<rparr>)
      else (None, m))"

definition cleanup_old_tracking :: "SmartAlertManager \<Rightarrow> datetime \<Rightarrow> SmartAlertManager" where
  "cleanup_old_tracking m now =
     (let to_remove =
        map fst (filter (\<lambda>(key, seen). total_seconds (now - seen) > 600)
          (active_persons m))
      in m\<lparr>active_persons := fold AList.delete to_remove (active_persons m)\<rparr>)"

text \<open>A stream of detections, each with the clock reading of its call.\<close>

record detection_call =
  dc_now :: datetime
  dc_camera :: string
  dc_person :: string
  dc_objects :: "detection list"
  dc_description :: string
  dc_confidence :: real
  dc_image_path :: string

definition process_call :: "SmartAlertManager \<Rightarrow> detection_call \<Rightarrow> alert option \<times> SmartAlertManager" where
  "process_call m c =
     process_detection m (dc_now c) (dc_camera c) (dc_person c) (dc_objects c)
       (dc_description c) (dc_confidence c) (dc_image_path c)"

fun process_all :: "SmartAlertManager \<Rightarrow> detection_call list \<Rightarrow> alert option list \<times> SmartAlertManager" where
  "process_all m [] = ([], m)"
| "process_all m (c # cs) =
     (case process_call m c of
        (r, m') \<Rightarrow> (case process_all m' cs of (rs, m'') \<Rightarrow> (r # rs, m'')))"



section \<open>Behavioural analysis (behavioral_analyzer.py)\<close>

text \<open>
  A float is the real number it denotes.  The frequency score, which a property below is
  about, is computed with the rounded operations: a division of floats or of integers gives
  the double nearest to the exact quotient, ties to the even significand (\<open>fl\<close>; the
  significand has 53 bits, the least exponent is that of the subnormal numbers; the quotients
  below, of a list length by a positive number of days and of the result by ten, are far from
  the overflow threshold).  The centre of a bounding box and the average
  duration are written with the exact operations, of which the float results are roundings,
  and the distances that numpy computes are an argument of \<open>detect_anomaly\<close>.
\<close>

definition round_even :: "real \<Rightarrow> int" where
  "round_even x =
     (let f = \<lfloor>x\<rfloor> in
      if x - of_int f < 1 / 2 then f
      else if x - of_int f > 1 / 2 then f + 1
      else if even f then f else f + 1)"

definition float_exp :: "real \<Rightarrow> int" where
  "float_exp x = max (\<lfloor>log 2 \<bar>x\<bar>\<rfloor> - 52) (- 1074)"

definition fl :: "real \<Rightarrow> real" where
  "fl x = (if x = 0 then 0
           else of_int (round_even (x / 2 powi float_exp x)) * 2 powi float_exp x)"

record MovementEvent =
  ev_timestamp :: datetime
  ev_camera :: string
  ev_person_id :: "string option"
  ev_position :: "real \<times> real"
  ev_confidence :: real

record BehavioralPattern =
  pat_person_id :: "string option"
  pat_camera :: string
  hour_of_day :: int
  day_of_week :: int
  avg_duration_minutes :: real
  frequency_score :: real
  typical_positions :: "(real \<times> real) list"

text \<open>
  \<open>events_file\<close> is the line log \<^verbatim>\<open>behavioral_events.jsonl\<close>, \<open>patterns_file\<close> the snapshot
  \<^verbatim>\<open>behavioral_patterns.json\<close> (\<open>None\<close> while it does not exist); writing them is taken to
  succeed.
\<close>

record BehavioralAnalyzer =
  events :: "MovementEvent list"
  patterns :: "(string \<times> BehavioralPattern) list"
  min_baseline_days :: int
  events_file :: "MovementEvent list"
  patterns_file :: "(string \<times> BehavioralPattern) list option"

definition save_event :: "BehavioralAnalyzer \<Rightarrow> MovementEvent \<Rightarrow> BehavioralAnalyzer" where
  "save_event a event = a\<lparr>events_file := events_file a @ [event]\<rparr>"

definition save_patterns :: "BehavioralAnalyzer \<Rightarrow> BehavioralAnalyzer" where
  "save_patterns a = a\<lparr>patterns_file := Some (patterns a)\<rparr>"

definition record_movement ::
  "BehavioralAnalyzer \<Rightarrow> datetime \<Rightarrow> string \<Rightarrow> real list \<Rightarrow> real \<Rightarrow> string option
     \<Rightarrow> datetime option \<Rightarrow> py_error + (MovementEvent \<times> BehavioralAnalyzer)" where
  "record_movement a now cam bbox conf pid ts_opt =
     (let ts = (case ts_opt of None \<Rightarrow> now | Some t \<Rightarrow> t) in
      if length bbox < 4 then Inl IndexError
      else
        let x_center = (bbox ! 0 + bbox ! 2) / 2;
            y_center = (bbox ! 1 + bbox ! 3) / 2;
            event = \<lparr>ev_timestamp = ts, ev_camera = cam, ev_person_id = pid,
                      ev_position = (x_center, y_center), ev_confidence = conf\<rparr>
        in Inr (event, save_event (a\<lparr>events := events a @ [event]\<rparr>) event))"

text \<open>\<^verbatim>\<open>e.person_id or "unknown"\<close>: \<^verbatim>\<open>None\<close> and the empty string both give "unknown".\<close>

definition person_or_unknown :: "string option \<Rightarrow> string" where
  "person_or_unknown pid =
     (case pid of None \<Rightarrow> ''unknown'' | Some p \<Rightarrow> if p = [] then ''unknown'' else p)"

text \<open>Decimal rendering of an integer, as an f-string does.\<close>

definition digit_char :: "nat \<Rightarrow> char" where
  "digit_char n = ''0123456789'' ! n"

fun str_nat :: "nat \<Rightarrow> string" where
  "str_nat n = (if n < 10 then [digit_char n] else str_nat (n div 10) @ [digit_char (n mod 10)])"

declare str_nat.simps [simp del]

definition str_int :: "int \<Rightarrow> string" where
  "str_int i = (if i < 0 then CHR ''-'' # str_nat (nat (- i)) else str_nat (nat i))"

record row =
  row_timestamp :: datetime
  row_camera :: string
  row_person_id :: string
  row_hour :: int
  row_day_of_week :: int
  row_x :: real
  row_y :: real

definition to_row :: "MovementEvent \<Rightarrow> row" where
  "to_row e =
     \<lparr>row_timestamp = ev_timestamp e, row_camera = ev_camera e,
      row_person_id = person_or_unknown (ev_person_id e),
      row_hour = dt_hour (ev_timestamp e), row_day_of_week = dt_weekday (ev_timestamp e),
      row_x = fst (ev_position e), row_y = snd (ev_position e)\<rparr>"

text \<open>
  The first-level key \<^verbatim>\<open>f"{camera}_{hour}_{day_of_week}"\<close> is split again with
  \<^verbatim>\<open>rsplit('_', 2)\<close> before it is used; hour and weekday are decimal numerals, so the split
  gives back the camera, the hour and the weekday the key was built from, and two rows have the
  same key exactly when they agree on all three.  The model keeps the triple.  The key of the
  pattern map, \<^verbatim>\<open>f"{person_id}_{camera}_{hour}_{dow}"\<close>, is never split and stays a string.
\<close>

type_synonym group_key = "string \<times> int \<times> int"
type_synonym occurrence = "datetime \<times> (real \<times> real)"
type_synonym groups = "(group_key \<times> (string \<times> occurrence list) list) list"

definition add_row :: "row \<Rightarrow> groups \<Rightarrow> groups" where
  "add_row r g =
     (let key = (row_camera r, row_hour r, row_day_of_week r);
          person_data = (case map_of g key of None \<Rightarrow> [] | Some pd \<Rightarrow> pd);
          occs = (case map_of person_data (row_person_id r) of None \<Rightarrow> [] | Some os \<Rightarrow> os)
      in AList.update key
           (AList.update (row_person_id r) (occs @ [(row_timestamp r, (row_x r, row_y r))])
              person_data) g)"

fun consecutive_durations :: "datetime list \<Rightarrow> real list" where
  "consecutive_durations (a # b # ts) =
     (let duration = total_seconds (b - a) / 60 in
      if duration < 30 then duration # consecutive_durations (b # ts)
      else consecutive_durations (b # ts))"
| "consecutive_durations ts = []"

definition avg_duration :: "occurrence list \<Rightarrow> real" where
  "avg_duration occs =
     (let durations = consecutive_durations (sort (map fst occs)) in
      if durations \<noteq> [] then sum_list durations / real (length durations) else 0)"

definition total_days :: "row list \<Rightarrow> int" where
  "total_days df =
     (let d = td_days (Max (set (map row_timestamp df)) - Min (set (map row_timestamp df)))
      in if d = 0 then 1 else d)"

definition frequency_score_of :: "nat \<Rightarrow> row list \<Rightarrow> real" where
  "frequency_score_of n df =
     (let frequency = fl (real n / real_of_int (total_days df)) in min (fl (frequency / 10)) 1)"

definition pattern_key :: "string \<Rightarrow> group_key \<Rightarrow> string" where
  "pattern_key pid key =
     (case key of (cam, hour, dow) \<Rightarrow>
        pid @ ''_'' @ cam @ ''_'' @ str_int hour @ ''_'' @ str_int dow)"

definition make_pattern :: "row list \<Rightarrow> group_key \<Rightarrow> string \<Rightarrow> occurrence list \<Rightarrow> BehavioralPattern" where
  "make_pattern df key pid occs =
     (case key of (cam, hour, dow) \<Rightarrow>
        \<lparr>pat_person_id = (if pid \<noteq> ''unknown'' then Some pid else None),
         pat_camera = cam, hour_of_day = hour, day_of_week = dow,
         avg_duration_minutes = avg_duration occs,
         frequency_score = frequency_score_of (length occs) df,
         typical_positions = map snd (take 10 occs)\<rparr>)"

definition store_person ::
  "row list \<Rightarrow> group_key \<Rightarrow> string \<times> occurrence list
     \<Rightarrow> (string \<times> BehavioralPattern) list \<Rightarrow> (string \<times> BehavioralPattern) list" where
  "store_person df key pd pats =
     (case pd of (pid, occs) \<Rightarrow>
        if length occs < 2 then pats
        else AList.update (pattern_key pid key) (make_pattern df key pid occs) pats)"

definition store_group ::
  "row list \<Rightarrow> group_key \<times> (string \<times> occurrence list) list
     \<Rightarrow> (string \<times> BehavioralPattern) list \<Rightarrow> (string \<times> BehavioralPattern) list" where
  "store_group df g pats = (case g of (key, person_data) \<Rightarrow> fold (store_person df key) person_data pats)"

definition compute_patterns :: "MovementEvent list \<Rightarrow> (string \<times> BehavioralPattern) list" where
  "compute_patterns evs =
     (let df = map to_row evs in fold (store_group df) (fold add_row df []) [])"

text \<open>
  The data frame of pandas is the list of its rows, in the order of the events, with the
  timestamps as they are.

  The summary without its two histograms (\<^verbatim>\<open>most_active_hours\<close>, \<^verbatim>\<open>most_active_cameras\<close>),
  which no property below reads.
\<close>

record summary =
  total_events_analyzed :: nat
  patterns_created :: nat
  cameras :: "string list"
  date_range_start :: datetime
  date_range_end :: datetime

text \<open>
  \<^verbatim>\<open>cutoff = datetime.now() - timedelta(days=days) if days else None\<close>: no cutoff for
  \<^verbatim>\<open>None\<close> and for 0 days.
\<close>

definition cutoff_of :: "datetime \<Rightarrow> int option \<Rightarrow> py_error + datetime option" where
  "cutoff_of now days =
     (case days of
        None \<Rightarrow> Inr None
      | Some n \<Rightarrow>
          if n = 0 then Inr None
          else (case minus_days now n of Inl e \<Rightarrow> Inl e | Inr t \<Rightarrow> Inr (Some t)))"

definition window_events :: "MovementEvent list \<Rightarrow> datetime option \<Rightarrow> MovementEvent list" where
  "window_events evs cutoff =
     filter (\<lambda>e. case cutoff of None \<Rightarrow> True | Some c \<Rightarrow> ev_timestamp e \<ge> c) evs"

definition build_baseline ::
  "BehavioralAnalyzer \<Rightarrow> datetime \<Rightarrow> int option
     \<Rightarrow> py_error + (summary option \<times> BehavioralAnalyzer)" where
  "build_baseline a now days =
     (if events a = [] then Inr (None, a)
      else
        case cutoff_of now days of
          Inl e \<Rightarrow> Inl e
        | Inr cutoff \<Rightarrow>
            let evs = window_events (events a) cutoff in
            if evs = [] then Inr (None, a)
            else
              let a' = save_patterns (a\<lparr>patterns := compute_patterns evs\<rparr>);
                  ts = map ev_timestamp evs
              in Inr (Some \<lparr>total_events_analyzed = length evs,
                            patterns_created = length (patterns a'),
                            cameras = rev (remdups (rev (map ev_camera evs))),
                            date_range_start = Min (set ts), date_range_end = Max (set ts)\<rparr>,
                      a'))"

record anomaly =
  anomaly_type :: string
  severity :: string
  message :: string
  anomaly_event :: MovementEvent
  typical_locations :: "string set option"
  distance_from_typical :: "real option"

text \<open>The double that the literal \<^verbatim>\<open>0.3\<close> denotes.\<close>

definition threshold :: real where
  "threshold = 5404319552844595 / 18014398509481984"

definition event_key :: "MovementEvent \<Rightarrow> string" where
  "event_key event =
     person_or_unknown (ev_person_id event) @ ''_'' @ ev_camera event @ ''_'' @
       str_int (dt_hour (ev_timestamp event)) @ ''_'' @ str_int (dt_weekday (ev_timestamp event))"

text \<open>
  The argument \<open>min_norm\<close> is numpy's float computation
  \<^verbatim>\<open>np.min(np.linalg.norm(typical_positions - event_pos, axis=1))\<close> on the stored positions and
  the position of the event, where its result is a number; the comparison is with the double
  \<open>threshold\<close>.
\<close>

definition detect_anomaly ::
  "((real \<times> real) list \<Rightarrow> real \<times> real \<Rightarrow> real) \<Rightarrow> BehavioralAnalyzer \<Rightarrow> MovementEvent
     \<Rightarrow> anomaly option" where
  "detect_anomaly min_norm a event =
     (if patterns a = [] then None
      else
        case map_of (patterns a) (event_key event) of
          None \<Rightarrow>
            (let person_patterns =
               filter (\<lambda>p. pat_person_id p = ev_person_id event) (map snd (patterns a))
             in if person_patterns = [] then
                  Some \<lparr>anomaly_type = ''unknown_person'', severity = ''low'',
                        message = ''New person detected in '' @ ev_camera event,
                        anomaly_event = event, typical_locations = None,
                        distance_from_typical = None\<rparr>
                else
                  Some \<lparr>anomaly_type = ''unusual_time_location'', severity = ''medium'',
                        message = person_or_unknown (ev_person_id event) @ '' in '' @
                          ev_camera event @ '' at unusual time'',
                        anomaly_event = event,
                        typical_locations = Some (set (map pat_camera person_patterns)),
                        distance_from_typical = None\<rparr>)
        | Some pattern \<Rightarrow>
            if length (typical_positions pattern) > 0 then
              (let min_distance = min_norm (typical_positions pattern) (ev_position event)
               in if min_distance > threshold then
                    Some \<lparr>anomaly_type = ''unusual_position'', severity = ''low'',
                          message = ''Unusual position in '' @ ev_camera event,
                          anomaly_event = event, typical_locations = None,
                          distance_from_typical = Some min_distance\<rparr>
                  else None)
            else None)"

definition has_sufficient_baseline :: "BehavioralAnalyzer \<Rightarrow> bool" where
  "has_sufficient_baseline a =
     (if events a = [] then False
      else
        let date_range = ev_timestamp (last (events a)) - ev_timestamp (hd (events a))
        in td_days date_range \<ge> min_baseline_days a)"

text \<open>The three mutating methods of the deduplicator, as operations of a run.\<close>

datatype dedup_op =
  ShouldAlert datetime string string "detection list"
| MarkLeft string
| CleanupOld datetime int

fun apply_dedup_op :: "AlertDeduplicator \<Rightarrow> dedup_op \<Rightarrow> AlertDeduplicator" where
  "apply_dedup_op d (ShouldAlert now cam person objs) = snd (should_alert d now cam person objs)"
| "apply_dedup_op d (MarkLeft cam) = mark_left d cam"
| "apply_dedup_op d (CleanupOld now max_age) = cleanup_old d now max_age"

definition run_dedup_ops :: "AlertDeduplicator \<Rightarrow> dedup_op list \<Rightarrow> AlertDeduplicator" where
  "run_dedup_ops d ops = fold (\<lambda>op d'. apply_dedup_op d' op) ops d"

text \<open>The number of states the deduplicator holds for a camera.\<close>

definition states_of :: "AlertDeduplicator \<Rightarrow> string \<Rightarrow> nat" where
  "states_of d cam = length (filter (\<lambda>entry. fst entry = cam) (active_detections d))"


text \<open>An analyzer on an empty data directory.\<close>

definition new_analyzer :: "int \<Rightarrow> BehavioralAnalyzer" where
  "new_analyzer min_days =
     \<lparr>events = [], patterns = [], min_baseline_days = min_days, events_file = [],
      patterns_file = None\<rparr>"

text \<open>
  A sequence of \<open>record_movement\<close> calls (camera, bounding box, confidence, person, timestamp),
  stopping at the first one that raises.
\<close>

fun record_all ::
  "BehavioralAnalyzer \<Rightarrow> datetime \<Rightarrow> (string \<times> real list \<times> real \<times> string option \<times> datetime option) list
     \<Rightarrow> py_error + BehavioralAnalyzer" where
  "record_all a now [] = Inr a"
| "record_all a now ((cam, bbox, conf, pid, ts) # rest) =
     (case record_movement a now cam bbox conf pid ts of
        Inl e \<Rightarrow> Inl e
      | Inr (event, a') \<Rightarrow> record_all a' now rest)"








section \<open>Sample data\<close>

definition cup :: detection where
  "cup = \<lparr>obj_class = ''cup'', obj_confidence = 0.8, obj_bbox = [0, 0, 1, 1]\<rparr>"

definition person_det :: detection where
  "person_det = \<lparr>obj_class = ''person'', obj_confidence = 0.9, obj_bbox = [0, 0, 1, 1]\<rparr>"

definition night_config :: config where
  "night_config =
     \<lparr>quiet_enabled = True, quiet_start = (23, 0), quiet_end = (7, 0),
      min_time_between_alerts = 300\<rparr>"

definition plain_config :: config where
  "plain_config =
     \<lparr>quiet_enabled = False, quiet_start = (23, 0), quiet_end = (7, 0),
      min_time_between_alerts = 300\<rparr>"


text \<open>An instant in the year 2025.\<close>

definition sample_time :: datetime where
  "sample_time = 63900000000000000"

definition unknown_call :: "datetime \<Rightarrow> detection_call" where
  "unknown_call now =
     \<lparr>dc_now = now, dc_camera = ''sala'', dc_person = ''unknown'', dc_objects = [person_det],
      dc_description = ''a person standing near the door'', dc_confidence = 0.9,
      dc_image_path = ''frame.jpg''\<rparr>"






text \<open>
  Three movements recorded out of chronological order: at \<open>sample_time\<close>, eight days later,
  and one day later.
\<close>

definition out_of_order_log :: "(string \<times> real list \<times> real \<times> string option \<times> datetime option) list" where
  "out_of_order_log =
     [(''sala'', [100, 100, 200, 300], 0.85, Some ''person_1'', Some sample_time),
      (''sala'', [100, 100, 200, 300], 0.85, Some ''person_1'',
         Some (sample_time + timedelta_days 8)),
      (''sala'', [100, 100, 200, 300], 0.85, Some ''person_1'',
         Some (sample_time + timedelta_days 1))]"




text \<open>
  The same three movements at camera sala with no subject label, and the baseline built from
  them.
\<close>

definition sala_log :: "(string \<times> real list \<times> real \<times> string option \<times> datetime option) list" where
  "sala_log =
     [(''sala'', [0.4, 0.4, 0.6, 0.6], 0.9, None, Some (sample_time + 3600000000)),
      (''sala'', [0.4, 0.4, 0.6, 0.6], 0.9, None,
         Some (sample_time + 3600000000 + timedelta_days 7)),
      (''sala'', [0.4, 0.4, 0.6, 0.6], 0.9, None,
         Some (sample_time + 3600000000 + timedelta_days 14))]"

definition sala_analyzer :: BehavioralAnalyzer where
  "sala_analyzer =
     (case record_all (new_analyzer 7) sample_time sala_log of
        Inr a \<Rightarrow>
          (case build_baseline a (sample_time + timedelta_days 15) None of
             Inr (s, a') \<Rightarrow> a'
           | Inl e \<Rightarrow> a)
      | Inl e \<Rightarrow> new_analyzer 7)"

text \<open>An event at 09:00 on the fourth Saturday.\<close>

definition hall_event :: "string \<Rightarrow> string option \<Rightarrow> real \<times> real \<Rightarrow> MovementEvent" where
  "hall_event cam pid pos =
     \<lparr>ev_timestamp = sample_time + 3600000000 + timedelta_days 21, ev_camera = cam,
      ev_person_id = pid, ev_position = pos, ev_confidence = 0.9\<rparr>"

section \<open>Properties of the deduplicator\<close>

lemma current_objects_Nil: "current_objects [] = {}"
  by (simp add: current_objects_def)

lemma current_objects_Cons:
  "current_objects (x # xs) =
     (if obj_class x \<noteq> ''person'' then insert (obj_class x) (current_objects xs)
      else current_objects xs)"
  by (simp add: current_objects_def)

lemma observe_all_same_subject:
  assumes "map_of (active_detections d) camera = Some st"
    and "person_name st = person"
    and "within_cooldown (cooldown d) (last_seen st) rest"
    and "\<forall>(t, objs) \<in> set rest. current_objects objs \<subseteq> objects st"
  shows "observe_all d camera person rest = replicate (length rest) False"
  using assms
proof (induction rest arbitrary: d st)
  case Nil
  then show ?case by simp
next
  case (Cons ob rest)
  obtain now objs where ob: "ob = (now, objs)" by (cases ob)
  let ?st' = "st\<lparr>last_seen := now\<rparr>"
  let ?d' = "d\<lparr>active_detections := AList.update camera ?st' (active_detections d)\<rparr>"
  from Cons.prems ob have sub: "current_objects objs - objects st = {}" by auto
  from Cons.prems ob have cd: "\<not> total_seconds (now - last_seen st) > real_of_int (cooldown d)"
    by simp
  have step: "should_alert d now camera person objs = (False, ?d')"
    using Cons.prems(1,2) sub cd by (simp add: should_alert_def Let_def)
  have "observe_all ?d' camera person rest = replicate (length rest) False"
  proof (rule Cons.IH)
    show "map_of (active_detections ?d') camera = Some ?st'"
      by (simp add: AList.update_conv')
    show "person_name ?st' = person" using Cons.prems(2) by simp
    show "within_cooldown (cooldown ?d') (last_seen ?st') rest"
      using Cons.prems(3) ob by simp
    show "\<forall>(t, objs) \<in> set rest. current_objects objs \<subseteq> objects ?st'"
      using Cons.prems(4) by simp
  qed
  with step ob show ?case by simp
qed

text \<open>
  C1: a stream of observations of one subject at one camera that starts with the camera
  untracked, in which every later observation comes at most the cooldown after the one before
  it and shows no object class outside the tracked set (the classes of the first observation),
  gets the answer True for the first observation and False for all the others.
\<close>

theorem should_alert_unchanged_after_arrived:
  assumes "map_of (active_detections d) camera = None"
    and "within_cooldown (cooldown d) t0 rest"
    and "\<forall>(t, objs) \<in> set rest. current_objects objs \<subseteq> current_objects objs0"
  shows "observe_all d camera person ((t0, objs0) # rest) = True # replicate (length rest) False"
proof -
  let ?st = "\<lparr>person_name = person, objects = current_objects objs0, last_seen = t0,
               alert_count = 1\<rparr>"
  let ?d' = "d\<lparr>active_detections := AList.update camera ?st (active_detections d)\<rparr>"
  have step: "should_alert d t0 camera person objs0 = (True, ?d')"
    using assms(1) by (simp add: should_alert_def Let_def)
  have "observe_all ?d' camera person rest = replicate (length rest) False"
    by (rule observe_all_same_subject [where st = ?st])
       (use assms in \<open>simp_all add: AList.update_conv'\<close>)
  with step show ?thesis by simp
qed

theorem should_alert_unchanged_after_arrived_witness:
  "observe_all (new_deduplicator 300) ''sala'' ''sofia''
     [(0, [person_det, cup]), (300000000, [person_det]), (600000000, [cup])]
   = [True, False, False]"
proof -
  let ?rest = "[(300000000, [person_det]), (600000000, [cup])]"
  have h1: "map_of (active_detections (new_deduplicator 300)) ''sala'' = None"
    by (simp add: new_deduplicator_def)
  have h2: "within_cooldown (cooldown (new_deduplicator 300)) 0 ?rest"
    by (simp add: new_deduplicator_def total_seconds_def)
  have h3: "\<forall>(t, objs) \<in> set ?rest. current_objects objs \<subseteq> current_objects [person_det, cup]"
    by (simp add: current_objects_Nil current_objects_Cons cup_def person_det_def)
  show ?thesis
    using should_alert_unchanged_after_arrived [OF h1 h2 h3, of "''sofia''"] by simp
qed

lemma distinct_fold_delete:
  "distinct (map fst al) \<Longrightarrow> distinct (map fst (fold AList.delete ks al))"
  by (induction ks arbitrary: al) (simp_all add: AList.distinct_delete)

lemma apply_dedup_op_distinct:
  "distinct (map fst (active_detections d)) \<Longrightarrow>
   distinct (map fst (active_detections (apply_dedup_op d op)))"
proof (cases op)
  case (ShouldAlert now cam person objs)
  assume "distinct (map fst (active_detections d))"
  then show ?thesis
    unfolding ShouldAlert
    by (simp add: should_alert_def Let_def AList.distinct_update split: option.splits)
next
  case (MarkLeft cam)
  assume "distinct (map fst (active_detections d))"
  then show ?thesis unfolding MarkLeft
    by (simp add: mark_left_def AList.distinct_delete)
next
  case (CleanupOld now max_age)
  assume "distinct (map fst (active_detections d))"
  then show ?thesis unfolding CleanupOld
    by (simp add: cleanup_old_def Let_def distinct_fold_delete)
qed

lemma run_dedup_ops_distinct:
  "distinct (map fst (active_detections d)) \<Longrightarrow>
   distinct (map fst (active_detections (run_dedup_ops d ops)))"
  unfolding run_dedup_ops_def
  by (induction ops arbitrary: d) (simp_all add: apply_dedup_op_distinct)

lemma filter_key_absent:
  "k \<notin> fst ` set al \<Longrightarrow> filter (\<lambda>entry. fst entry = k) al = []"
  by (induction al) auto

lemma filter_key_distinct:
  "distinct (map fst al) \<Longrightarrow> length (filter (\<lambda>entry. fst entry = k) al) \<le> 1"
  by (induction al) (auto simp: filter_key_absent)

lemma map_of_update_other:
  "c \<noteq> k \<Longrightarrow> map_of (AList.update k v al) c = map_of al c"
  by (simp add: AList.update_conv')

lemma update_keys_present:
  "map_of al k = Some v \<Longrightarrow> map fst (AList.update k v' al) = map fst al"
  by (induction al) (auto split: if_splits)

lemma should_alert_subject_changed:
  assumes "map_of (active_detections d) cam = Some st" and "person_name st \<noteq> person"
  shows "should_alert d now cam person objs =
     (True, d\<lparr>active_detections :=
        AList.update cam
          \<lparr>person_name = person, objects = current_objects objs, last_seen = now,
            alert_count = alert_count st + 1\<rparr> (active_detections d)\<rparr>)"
  using assms by (cases st) (simp add: should_alert_def Let_def)

lemma sample_run:
  "run_dedup_ops (new_deduplicator 300)
     [ShouldAlert 0 ''sala'' ''sofia'' [cup], MarkLeft ''cozinha'',
      CleanupOld 5000000 600, ShouldAlert 6000000 ''cozinha'' ''augusto'' []] =
   \<lparr>cooldown = 300,
    active_detections =
      [(''sala'', \<lparr>person_name = ''sofia'', objects = {''cup''}, last_seen = 0, alert_count = 1\<rparr>),
       (''cozinha'', \<lparr>person_name = ''augusto'', objects = {}, last_seen = 6000000,
          alert_count = 1\<rparr>)],
    last_alert_time = []\<rparr>"
  by (simp add: run_dedup_ops_def new_deduplicator_def should_alert_def mark_left_def
      cleanup_old_def total_seconds_def Let_def
      current_objects_Nil current_objects_Cons cup_def)

text \<open>
  C8: after any sequence of \<open>should_alert\<close>, \<open>mark_left\<close> and \<open>cleanup_old\<close> calls on a new
  deduplicator there is at most one detection state per camera; and when \<open>should_alert\<close> sees
  a subject other than the tracked one at a camera, it answers True and overwrites that camera's
  state (new subject, new object set, new timestamp, alert counter plus one): the list of
  tracked cameras is the same as before, so no second state is created, and the other cameras'
  states are untouched.
\<close>

theorem one_state_per_camera:
  "(let d = run_dedup_ops (new_deduplicator cd) ops in
    (\<forall>c. states_of d c \<le> 1) \<and>
    (\<forall>st. map_of (active_detections d) cam = Some st \<and> person_name st \<noteq> person \<longrightarrow>
       (case should_alert d now cam person objs of
          (r, d') \<Rightarrow>
            r \<and> map fst (active_detections d') = map fst (active_detections d) \<and>
            (\<forall>c. states_of d' c \<le> 1) \<and>
            map_of (active_detections d') cam =
              Some \<lparr>person_name = person, objects = current_objects objs, last_seen = now,
                     alert_count = alert_count st + 1\<rparr> \<and>
            (\<forall>c. c \<noteq> cam \<longrightarrow> map_of (active_detections d') c = map_of (active_detections d) c))))"
proof -
  define d where "d = run_dedup_ops (new_deduplicator cd) ops"
  have dist: "distinct (map fst (active_detections d))"
    unfolding d_def by (rule run_dedup_ops_distinct) (simp add: new_deduplicator_def)
  have one: "\<forall>c. states_of d c \<le> 1"
    using filter_key_distinct [OF dist] by (simp add: states_of_def)
  have changed: "case should_alert d now cam person objs of
          (r, d') \<Rightarrow>
            r \<and> map fst (active_detections d') = map fst (active_detections d) \<and>
            (\<forall>c. states_of d' c \<le> 1) \<and>
            map_of (active_detections d') cam =
              Some \<lparr>person_name = person, objects = current_objects objs, last_seen = now,
                     alert_count = alert_count st + 1\<rparr> \<and>
            (\<forall>c. c \<noteq> cam \<longrightarrow> map_of (active_detections d') c = map_of (active_detections d) c)"
    if st: "map_of (active_detections d) cam = Some st" and ne: "person_name st \<noteq> person" for st
  proof -
    let ?new = "\<lparr>person_name = person, objects = current_objects objs, last_seen = now,
                  alert_count = alert_count st + 1\<rparr>"
    let ?al = "AList.update cam ?new (active_detections d)"
    let ?d' = "d\<lparr>active_detections := ?al\<rparr>"
    have eq: "should_alert d now cam person objs = (True, ?d')"
      by (rule should_alert_subject_changed [OF st ne])
    have keys: "map fst ?al = map fst (active_detections d)"
      using st by (rule update_keys_present)
    have d2: "distinct (map fst ?al)" using dist keys by simp
    have one': "\<forall>c. states_of ?d' c \<le> 1"
      using filter_key_distinct [OF d2] by (simp add: states_of_def)
    have new: "map_of ?al cam = Some ?new"
      by (simp add: AList.update_conv')
    have others: "\<forall>c. c \<noteq> cam \<longrightarrow> map_of ?al c = map_of (active_detections d) c"
      by (simp add: AList.update_conv')
    show ?thesis
      unfolding eq using keys one' new others by simp
  qed
  show ?thesis
    unfolding Let_def d_def [symmetric]
  proof (intro conjI allI impI)
    fix c show "states_of d c \<le> 1" using one by simp
  next
    fix st assume "map_of (active_detections d) cam = Some st \<and> person_name st \<noteq> person"
    then show "case should_alert d now cam person objs of
          (r, d') \<Rightarrow>
            r \<and> map fst (active_detections d') = map fst (active_detections d) \<and>
            (\<forall>c. states_of d' c \<le> 1) \<and>
            map_of (active_detections d') cam =
              Some \<lparr>person_name = person, objects = current_objects objs, last_seen = now,
                     alert_count = alert_count st + 1\<rparr> \<and>
            (\<forall>c. c \<noteq> cam \<longrightarrow> map_of (active_detections d') c = map_of (active_detections d) c)"
      using changed [of st] by simp
  qed
qed


theorem one_state_per_camera_witness:
  "(let d = run_dedup_ops (new_deduplicator 300)
              [ShouldAlert 0 ''sala'' ''sofia'' [cup], MarkLeft ''cozinha'',
               CleanupOld 5000000 600, ShouldAlert 6000000 ''cozinha'' ''augusto'' []]
    in map fst (active_detections d) = [''sala'', ''cozinha''] \<and>
       states_of d ''sala'' \<le> 1 \<and>
       map_of (active_detections d) ''sala'' =
         Some \<lparr>person_name = ''sofia'', objects = {''cup''}, last_seen = 0, alert_count = 1\<rparr> \<and>
       (case should_alert d 10000000 ''sala'' ''augusto'' [person_det] of
          (r, d') \<Rightarrow> r \<and> map fst (active_detections d') = [''sala'', ''cozinha''] \<and>
            states_of d' ''sala'' \<le> 1 \<and>
            map_of (active_detections d') ''sala'' =
              Some \<lparr>person_name = ''augusto'', objects = {}, last_seen = 10000000,
                     alert_count = 2\<rparr>))"
  using one_state_per_camera [where cd = 300 and ops = "[ShouldAlert 0 ''sala'' ''sofia'' [cup],
      MarkLeft ''cozinha'', CleanupOld 5000000 600, ShouldAlert 6000000 ''cozinha'' ''augusto'' []]"
      and cam = "''sala''" and person = "''augusto''" and now = 10000000 and objs = "[person_det]"]
  unfolding sample_run Let_def
  by (auto simp: current_objects_Nil current_objects_Cons person_det_def split: prod.splits)

section \<open>Properties of the smart alert manager\<close>

text \<open>
  C3: when quiet hours are enabled and the window crosses midnight (its start is later in the day
  than its end), \<open>is_quiet_hours\<close> holds exactly when the time of day is at or after the start
  or at or before the end.  For the window 23:00 to 07:00 it holds at every instant of the
  minute 23:30 and of the minute 06:59, and at no instant of the minute 12:00.
\<close>

theorem is_quiet_hours_crossing_midnight:
  "(quiet_enabled (config m) \<and> parse_hm (quiet_end (config m)) < parse_hm (quiet_start (config m)) \<longrightarrow>
      is_quiet_hours m now =
        (parse_hm (quiet_start (config m)) \<le> dt_time now \<or>
         dt_time now \<le> parse_hm (quiet_end (config m)))) \<and>
   (quiet_enabled (config m) \<and> quiet_start (config m) = (23, 0) \<and> quiet_end (config m) = (7, 0) \<longrightarrow>
      (dt_time now = (23, 30, s, us) \<longrightarrow> is_quiet_hours m now) \<and>
      (dt_time now = (6, 59, s, us) \<longrightarrow> is_quiet_hours m now) \<and>
      (dt_time now = (12, 0, s, us) \<longrightarrow> \<not> is_quiet_hours m now))"
  by (auto simp: is_quiet_hours_def Let_def parse_hm_def)

theorem is_quiet_hours_crossing_midnight_witness:
  "is_quiet_hours (new_manager night_config) 84600000000 \<and>
   is_quiet_hours (new_manager night_config) 25140000000 \<and>
   \<not> is_quiet_hours (new_manager night_config) 43200000000 \<and>
   dt_time 84600000000 = (23, 30, 0, 0) \<and> dt_time 25140000000 = (6, 59, 0, 0) \<and>
   dt_time 43200000000 = (12, 0, 0, 0)"
proof -
  have c: "quiet_enabled (config (new_manager night_config))"
     "quiet_start (config (new_manager night_config)) = (23, 0)"
     "quiet_end (config (new_manager night_config)) = (7, 0)"
    by (simp_all add: new_manager_def night_config_def)
  have t: "dt_time 84600000000 = (23, 30, 0, 0)" "dt_time 25140000000 = (6, 59, 0, 0)"
     "dt_time 43200000000 = (12, 0, 0, 0)"
    by (simp_all add: dt_time_def)
  show ?thesis
    using is_quiet_hours_crossing_midnight [of "new_manager night_config" 84600000000 0 0]
      is_quiet_hours_crossing_midnight [of "new_manager night_config" 25140000000 0 0]
      is_quiet_hours_crossing_midnight [of "new_manager night_config" 43200000000 0 0]
      c t by simp
qed


lemmas manager_defs =
  process_call_def process_detection_def new_manager_def
  is_quiet_hours_def is_new_person_def has_person_left_def should_alert_unknown_def
  track_person_def remove_person_def send_text_alert_def is_interesting_for_training_def
  person_key_def total_seconds_def datetime_min_def

lemma person_key_not_unknown: "person_key cam person \<noteq> ''unknown''"
proof
  assume "person_key cam person = ''unknown''"
  then have "set (person_key cam person) = set ''unknown''" by simp
  moreover have "CHR '':'' \<in> set (person_key cam person)" by (simp add: person_key_def)
  ultimately show False by simp
qed

lemma track_person_unknown_unset:
  "''unknown'' \<notin> fst ` set (last_alerts m) \<Longrightarrow>
   ''unknown'' \<notin> fst ` set (last_alerts (track_person m now cam person))"
  using person_key_not_unknown [of cam person]
  by (simp add: track_person_def Let_def AList.dom_update)

lemma last_alerts_remove_person: "last_alerts (remove_person m cam person) = last_alerts m"
  by (simp add: remove_person_def Let_def)

lemma last_alerts_send: "last_alerts (send_text_alert m msg) = last_alerts m"
  by (simp add: send_text_alert_def)

lemma process_detection_unknown_unset:
  assumes "''unknown'' \<notin> fst ` set (last_alerts m)"
  shows "''unknown'' \<notin> fst ` set (last_alerts (snd (process_detection m now cam person objs desc conf img)))"
  using assms track_person_unknown_unset [OF assms, of now cam person]
  by (simp add: process_detection_def Let_def last_alerts_remove_person last_alerts_send)

lemma snd_process_all_Cons:
  "snd (process_all m (c # cs)) = snd (process_all (snd (process_call m c)) cs)"
  by (simp split: prod.splits)

lemma fst_process_all_Cons:
  "fst (process_all m (c # cs)) =
     fst (process_call m c) # fst (process_all (snd (process_call m c)) cs)"
  by (simp split: prod.splits)

lemma process_all_unknown_unset:
  "''unknown'' \<notin> fst ` set (last_alerts m) \<Longrightarrow>
   ''unknown'' \<notin> fst ` set (last_alerts (snd (process_all m cs)))"
proof (induction cs arbitrary: m)
  case Nil
  then show ?case by simp
next
  case (Cons c cs)
  have "''unknown'' \<notin> fst ` set (last_alerts (snd (process_call m c)))"
    unfolding process_call_def by (rule process_detection_unknown_unset [OF Cons.prems])
  from Cons.IH [OF this] show ?case
    by (simp add: snd_process_all_Cons del: process_all.simps)
qed

lemma unknown_rate_limit_never_set:
  "should_alert_unknown (snd (process_all (new_manager cfg) cs)) now = (total_seconds now > 300)"
proof -
  have "''unknown'' \<notin> fst ` set (last_alerts (snd (process_all (new_manager cfg) cs)))"
    by (rule process_all_unknown_unset) (simp add: new_manager_def)
  then have "map_of (last_alerts (snd (process_all (new_manager cfg) cs))) ''unknown'' = None"
    by (simp add: map_of_eq_None_iff)
  then show ?thesis
    by (simp add: should_alert_unknown_def datetime_min_def)
qed

text \<open>
  C2: the rate limit of the unknown-subject alert reads the key \<^verbatim>\<open>'unknown'\<close> of
  \<open>last_alerts\<close>, which nothing ever writes (\<open>unknown_rate_limit_never_set\<close>), so the limit
  never suppresses: three detections of an unknown subject at one camera, ten seconds apart,
  give an arrival alert and then two unknown-subject alerts ten seconds apart.
\<close>

theorem unknown_alerts_ten_seconds_apart:
  "fst (process_all (new_manager plain_config)
         [unknown_call sample_time, unknown_call (sample_time + 10000000), unknown_call (sample_time + 20000000)]) =
   [Some (NewPersonAlert ''sala'' ''unknown'' sample_time),
    Some (UnknownPersonAlert ''sala'' (sample_time + 10000000)),
    Some (UnknownPersonAlert ''sala'' (sample_time + 20000000))]"
  by (simp add: manager_defs unknown_call_def plain_config_def sample_time_def Let_def)























section \<open>Properties of the rounding\<close>




















section \<open>Properties of the behavioural analyzer\<close>

lemma td_days_ge_iff: "(n \<le> td_days d) = (n * usec_per_day \<le> d)"
proof
  have pos: "0 < usec_per_day" by (simp add: usec_per_day_def)
  {
    assume "n \<le> td_days d"
    then have "n * usec_per_day \<le> (d div usec_per_day) * usec_per_day"
      using pos by (simp add: td_days_def)
    also have "\<dots> \<le> d"
      using pos_mod_sign [OF pos, of d] div_mult_mod_eq [of d usec_per_day] by linarith
    finally show "n * usec_per_day \<le> d" .
  }
  {
    assume "n * usec_per_day \<le> d"
    then have "(n * usec_per_day) div usec_per_day \<le> d div usec_per_day"
      using pos by (rule zdiv_mono1)
    then show "n \<le> td_days d"
      using pos by (simp add: td_days_def)
  }
qed

lemma sorted_hd_Min:
  fixes xs :: "int list"
  assumes "sorted xs" and "xs \<noteq> []"
  shows "hd xs = Min (set xs)"
proof -
  obtain y ys where xs: "xs = y # ys" using assms(2) by (cases xs) auto
  have "Min (set xs) = y"
    by (rule Min_eqI) (use assms(1) xs in auto)
  then show ?thesis by (simp add: xs)
qed

lemma sorted_last_Max:
  fixes xs :: "int list"
  assumes "sorted xs" and "xs \<noteq> []"
  shows "last xs = Max (set xs)"
proof -
  have xs: "xs = butlast xs @ [last xs]" using assms(2) by simp
  have "sorted (butlast xs @ [last xs])" using assms(1) xs by simp
  then have le: "\<forall>y \<in> set (butlast xs). y \<le> last xs"
    by (simp add: sorted_append)
  have "set xs = insert (last xs) (set (butlast xs))"
    by (subst xs) simp
  then have "Max (set xs) = last xs"
    using le by (intro Max_eqI) auto
  then show ?thesis by simp
qed

lemma has_sufficient_baseline_chronological:
  assumes "events a \<noteq> []" and "sorted (map ev_timestamp (events a))"
  shows "has_sufficient_baseline a =
     (min_baseline_days a * usec_per_day \<le>
        Max (set (map ev_timestamp (events a))) - Min (set (map ev_timestamp (events a))))"
proof -
  let ?ts = "map ev_timestamp (events a)"
  have ne: "?ts \<noteq> []" using assms(1) by simp
  have "ev_timestamp (hd (events a)) = hd ?ts" using assms(1) by (simp add: hd_map)
  then have h: "ev_timestamp (hd (events a)) = Min (set ?ts)"
    using sorted_hd_Min [OF assms(2) ne] by simp
  have "ev_timestamp (last (events a)) = last ?ts" using assms(1) by (simp add: last_map)
  then have l: "ev_timestamp (last (events a)) = Max (set ?ts)"
    using sorted_last_Max [OF assms(2) ne] by simp
  show ?thesis
    using assms(1) by (simp only: has_sufficient_baseline_def Let_def h l td_days_ge_iff if_False)
qed

lemma out_of_order_recorded:
  "record_all (new_analyzer 7) sample_time out_of_order_log =
     Inr \<lparr>events =
            [\<lparr>ev_timestamp = sample_time, ev_camera = ''sala'', ev_person_id = Some ''person_1'',
               ev_position = (150, 200), ev_confidence = 0.85\<rparr>,
             \<lparr>ev_timestamp = sample_time + 691200000000, ev_camera = ''sala'',
               ev_person_id = Some ''person_1'', ev_position = (150, 200), ev_confidence = 0.85\<rparr>,
             \<lparr>ev_timestamp = sample_time + 86400000000, ev_camera = ''sala'',
               ev_person_id = Some ''person_1'', ev_position = (150, 200), ev_confidence = 0.85\<rparr>],
          patterns = [], min_baseline_days = 7,
          events_file =
            [\<lparr>ev_timestamp = sample_time, ev_camera = ''sala'', ev_person_id = Some ''person_1'',
               ev_position = (150, 200), ev_confidence = 0.85\<rparr>,
             \<lparr>ev_timestamp = sample_time + 691200000000, ev_camera = ''sala'',
               ev_person_id = Some ''person_1'', ev_position = (150, 200), ev_confidence = 0.85\<rparr>,
             \<lparr>ev_timestamp = sample_time + 86400000000, ev_camera = ''sala'',
               ev_person_id = Some ''person_1'', ev_position = (150, 200), ev_confidence = 0.85\<rparr>],
          patterns_file = None\<rparr>"
  by (simp add: out_of_order_log_def new_analyzer_def record_movement_def save_event_def
      timedelta_days_def usec_per_day_def Let_def)

text \<open>
  C7: \<open>has_sufficient_baseline\<close> subtracts the timestamp of the first event of the log from
  that of the last one.  For a log in chronological order this is the span between the oldest
  and the newest event, and the answer is the one the claim gives
  (\<open>has_sufficient_baseline_chronological\<close>).  For the three movements recorded at day 0, day 8
  and day 1, in this order, the oldest and the newest event are eight days apart, and with a
  minimum of seven days the answer is False.
\<close>

theorem has_sufficient_baseline_out_of_order:
  "(case record_all (new_analyzer 7) sample_time out_of_order_log of
      Inl e \<Rightarrow> False
    | Inr a \<Rightarrow>
        \<not> has_sufficient_baseline a \<and>
        td_days (Max (set (map ev_timestamp (events a))) - Min (set (map ev_timestamp (events a))))
          = 8)"
  unfolding out_of_order_recorded
  by (simp add: has_sufficient_baseline_def td_days_def usec_per_day_def)

subsection \<open>The sample baselines\<close>

lemma hall_key: "event_key (hall_event cam pid pos) = person_or_unknown pid @ ''_'' @ cam @ ''_9_5''"
  by (simp add: event_key_def hall_event_def sample_time_def timedelta_days_def usec_per_day_def
      dt_hour_def dt_weekday_def str_int_def str_nat.simps digit_char_def)







lemma hall_keys:
  "event_key (hall_event ''hall'' (Some ''A'') pos) = ''A_hall_9_5''"
  "event_key (hall_event ''hall'' (Some ''B'') pos) = ''B_hall_9_5''"
  "event_key (hall_event ''sala'' (Some ''A'') pos) = ''A_sala_9_5''"
  by (simp_all add: hall_key person_or_unknown_def)


lemma sala_recorded:
  "record_all (new_analyzer 7) sample_time sala_log =
     Inr \<lparr>events =
            [\<lparr>ev_timestamp = 63900003600000000, ev_camera = ''sala'', ev_person_id = None,
               ev_position = (1 / 2, 1 / 2), ev_confidence = 9 / 10\<rparr>,
             \<lparr>ev_timestamp = 63900608400000000, ev_camera = ''sala'', ev_person_id = None,
               ev_position = (1 / 2, 1 / 2), ev_confidence = 9 / 10\<rparr>,
             \<lparr>ev_timestamp = 63901213200000000, ev_camera = ''sala'', ev_person_id = None,
               ev_position = (1 / 2, 1 / 2), ev_confidence = 9 / 10\<rparr>],
          patterns = [], min_baseline_days = 7,
          events_file =
            [\<lparr>ev_timestamp = 63900003600000000, ev_camera = ''sala'', ev_person_id = None,
               ev_position = (1 / 2, 1 / 2), ev_confidence = 9 / 10\<rparr>,
             \<lparr>ev_timestamp = 63900608400000000, ev_camera = ''sala'', ev_person_id = None,
               ev_position = (1 / 2, 1 / 2), ev_confidence = 9 / 10\<rparr>,
             \<lparr>ev_timestamp = 63901213200000000, ev_camera = ''sala'', ev_person_id = None,
               ev_position = (1 / 2, 1 / 2), ev_confidence = 9 / 10\<rparr>],
          patterns_file = None\<rparr>"
  by (simp add: sala_log_def new_analyzer_def record_movement_def save_event_def
      timedelta_days_def usec_per_day_def sample_time_def Let_def)

lemma sala_rows:
  "map to_row
     [\<lparr>ev_timestamp = 63900003600000000, ev_camera = ''sala'', ev_person_id = None,
        ev_position = (1 / 2, 1 / 2), ev_confidence = 9 / 10\<rparr>,
      \<lparr>ev_timestamp = 63900608400000000, ev_camera = ''sala'', ev_person_id = None,
        ev_position = (1 / 2, 1 / 2), ev_confidence = 9 / 10\<rparr>,
      \<lparr>ev_timestamp = 63901213200000000, ev_camera = ''sala'', ev_person_id = None,
        ev_position = (1 / 2, 1 / 2), ev_confidence = 9 / 10\<rparr>] =
   [\<lparr>row_timestamp = 63900003600000000, row_camera = ''sala'', row_person_id = ''unknown'',
      row_hour = 9, row_day_of_week = 5, row_x = 1 / 2, row_y = 1 / 2\<rparr>,
    \<lparr>row_timestamp = 63900608400000000, row_camera = ''sala'', row_person_id = ''unknown'',
      row_hour = 9, row_day_of_week = 5, row_x = 1 / 2, row_y = 1 / 2\<rparr>,
    \<lparr>row_timestamp = 63901213200000000, row_camera = ''sala'', row_person_id = ''unknown'',
      row_hour = 9, row_day_of_week = 5, row_x = 1 / 2, row_y = 1 / 2\<rparr>]"
  by (simp add: to_row_def person_or_unknown_def dt_hour_def dt_weekday_def usec_per_day_def)

lemma sala_groups:
  "fold add_row
     [\<lparr>row_timestamp = 63900003600000000, row_camera = ''sala'', row_person_id = ''unknown'',
        row_hour = 9, row_day_of_week = 5, row_x = 1 / 2, row_y = 1 / 2\<rparr>,
      \<lparr>row_timestamp = 63900608400000000, row_camera = ''sala'', row_person_id = ''unknown'',
        row_hour = 9, row_day_of_week = 5, row_x = 1 / 2, row_y = 1 / 2\<rparr>,
      \<lparr>row_timestamp = 63901213200000000, row_camera = ''sala'', row_person_id = ''unknown'',
        row_hour = 9, row_day_of_week = 5, row_x = 1 / 2, row_y = 1 / 2\<rparr>] [] =
   [((''sala'', 9, 5),
     [(''unknown'', [(63900003600000000, (1 / 2, 1 / 2)), (63900608400000000, (1 / 2, 1 / 2)),
               (63901213200000000, (1 / 2, 1 / 2))])])]"
  by (simp add: add_row_def)

lemma sala_compute:
  "compute_patterns
     [\<lparr>ev_timestamp = 63900003600000000, ev_camera = ''sala'', ev_person_id = None,
        ev_position = (1 / 2, 1 / 2), ev_confidence = 9 / 10\<rparr>,
      \<lparr>ev_timestamp = 63900608400000000, ev_camera = ''sala'', ev_person_id = None,
        ev_position = (1 / 2, 1 / 2), ev_confidence = 9 / 10\<rparr>,
      \<lparr>ev_timestamp = 63901213200000000, ev_camera = ''sala'', ev_person_id = None,
        ev_position = (1 / 2, 1 / 2), ev_confidence = 9 / 10\<rparr>] =
     [(''unknown_sala_9_5'',
       \<lparr>pat_person_id = None, pat_camera = ''sala'', hour_of_day = 9, day_of_week = 5,
        avg_duration_minutes = 0, frequency_score = min (fl (fl (3 / 14) / 10)) 1,
        typical_positions = [(1 / 2, 1 / 2), (1 / 2, 1 / 2), (1 / 2, 1 / 2)]\<rparr>)]"
  unfolding compute_patterns_def Let_def sala_rows sala_groups
  by (simp add: store_group_def store_person_def make_pattern_def pattern_key_def
      avg_duration_def frequency_score_of_def total_days_def td_days_def usec_per_day_def
      total_seconds_def str_int_def str_nat.simps digit_char_def Let_def)

lemma sala_patterns:
  "patterns sala_analyzer =
     [(''unknown_sala_9_5'',
       \<lparr>pat_person_id = None, pat_camera = ''sala'', hour_of_day = 9, day_of_week = 5,
        avg_duration_minutes = 0, frequency_score = min (fl (fl (3 / 14) / 10)) 1,
        typical_positions = [(1 / 2, 1 / 2), (1 / 2, 1 / 2), (1 / 2, 1 / 2)]\<rparr>)]"
  unfolding sala_analyzer_def sala_recorded
  by (simp add: build_baseline_def cutoff_of_def window_events_def save_patterns_def Let_def
      sala_compute)


lemma sala_events:
  "events sala_analyzer =
     [\<lparr>ev_timestamp = 63900003600000000, ev_camera = ''sala'', ev_person_id = None,
        ev_position = (1 / 2, 1 / 2), ev_confidence = 9 / 10\<rparr>,
      \<lparr>ev_timestamp = 63900608400000000, ev_camera = ''sala'', ev_person_id = None,
        ev_position = (1 / 2, 1 / 2), ev_confidence = 9 / 10\<rparr>,
      \<lparr>ev_timestamp = 63901213200000000, ev_camera = ''sala'', ev_person_id = None,
        ev_position = (1 / 2, 1 / 2), ev_confidence = 9 / 10\<rparr>]"
  unfolding sala_analyzer_def sala_recorded
  by (simp add: build_baseline_def cutoff_of_def window_events_def save_patterns_def Let_def)

lemma unknown_keys:
  "event_key (hall_event ''cozinha'' (Some ''unknown'') pos) = ''unknown_cozinha_9_5''"
  "event_key (hall_event ''cozinha'' None pos) = ''unknown_cozinha_9_5''"
  "event_key (hall_event ''cozinha'' (Some []) pos) = ''unknown_cozinha_9_5''"
  by (simp_all add: hall_key person_or_unknown_def)

text \<open>
  C5: the bucket key of an event takes the subject as \<^verbatim>\<open>person_id or "unknown"\<close>, but the
  search for patterns of the subject compares the raw \<^verbatim>\<open>person_id\<close> with the stored one, which
  is \<^verbatim>\<open>None\<close> for the unknown subject.  With one pattern, of the unknown subject at camera
  sala, an event at camera cozinha with the label "unknown" and the same event with no label
  have the same bucket, which has no pattern; the subject has a pattern, at sala; the first
  event is answered \<open>unknown_person\<close> with severity \<open>low\<close>, the second
  \<open>unusual_time_location\<close> with the cameras of the subject.
\<close>

theorem detect_anomaly_unknown_label:
  "map (\<lambda>(k, p). (k, pat_person_id p, pat_camera p)) (patterns sala_analyzer) =
     [(''unknown_sala_9_5'', None, ''sala'')] \<and>
   event_key (hall_event ''cozinha'' (Some ''unknown'') (1 / 2, 1 / 2)) =
     event_key (hall_event ''cozinha'' None (1 / 2, 1 / 2)) \<and>
   map_option anomaly_type
     (detect_anomaly min_norm sala_analyzer (hall_event ''cozinha'' (Some ''unknown'') (1 / 2, 1 / 2))) =
     Some ''unknown_person'' \<and>
   map_option severity
     (detect_anomaly min_norm sala_analyzer (hall_event ''cozinha'' (Some ''unknown'') (1 / 2, 1 / 2))) =
     Some ''low'' \<and>
   map_option anomaly_type
     (detect_anomaly min_norm sala_analyzer (hall_event ''cozinha'' None (1 / 2, 1 / 2))) =
     Some ''unusual_time_location'' \<and>
   map_option typical_locations
     (detect_anomaly min_norm sala_analyzer (hall_event ''cozinha'' None (1 / 2, 1 / 2))) =
     Some (Some {''sala''})"
proof -
  have u: "ev_person_id (hall_event ''cozinha'' (Some ''unknown'') (1 / 2, 1 / 2)) = Some ''unknown''"
    and n: "ev_person_id (hall_event ''cozinha'' None (1 / 2, 1 / 2)) = None"
    by (simp_all add: hall_event_def)
  have d1: "detect_anomaly min_norm sala_analyzer
        (hall_event ''cozinha'' (Some ''unknown'') (1 / 2, 1 / 2)) =
      Some \<lparr>anomaly_type = ''unknown_person'', severity = ''low'',
            message = ''New person detected in '' @
              ev_camera (hall_event ''cozinha'' (Some ''unknown'') (1 / 2, 1 / 2)),
            anomaly_event = hall_event ''cozinha'' (Some ''unknown'') (1 / 2, 1 / 2),
            typical_locations = None, distance_from_typical = None\<rparr>"
    unfolding detect_anomaly_def unknown_keys u sala_patterns by simp
  have d2: "map_option (\<lambda>x. (anomaly_type x, typical_locations x))
       (detect_anomaly min_norm sala_analyzer (hall_event ''cozinha'' None (1 / 2, 1 / 2))) =
      Some (''unusual_time_location'', Some {''sala''})"
    unfolding detect_anomaly_def unknown_keys n sala_patterns by simp
  have d3: "map_option anomaly_type
       (detect_anomaly min_norm sala_analyzer (hall_event ''cozinha'' None (1 / 2, 1 / 2))) =
      Some ''unusual_time_location''"
    and d4: "map_option typical_locations
       (detect_anomaly min_norm sala_analyzer (hall_event ''cozinha'' None (1 / 2, 1 / 2))) =
      Some (Some {''sala''})"
    using d2 by (auto simp: map_option_case split: option.splits)
  show ?thesis
    unfolding d1 d3 d4 unknown_keys by (simp add: sala_patterns)
qed

lemma window_events_Nil: "window_events [] cutoff = []"
  by (simp add: window_events_def)







subsection \<open>The frequency score\<close>
























end
